theory Spec2Isabelle
  imports Complex_Main "HOL-Library.Sublist"
begin

section \<open>The paginated collector (base stage of collect_all_data)\<close>

text \<open>
  The bulk-listing fetch \<open>get_rising_stocks(page_size, start_idx)\<close> is the external
  collaborator: it returns the page of records found at an offset, the empty page when
  the request fails or the provider has no data. It is a parameter of the model, a
  function of the page size and the offset. The loop asks for every offset at most once,
  since \<open>start_idx\<close> only grows.

  The loop state holds the three variables of the source, \<open>all_data\<close>,
  \<open>start_idx\<close> and \<open>total_collected\<close>, and one ghost counter, \<open>fetches\<close>, the
  number of times the loop body has run (each run makes exactly one fetch).
\<close>

record 'a collector =
  all_data :: "'a list list"
  start_idx :: nat
  total_collected :: nat
  fetches :: nat

definition collector_init :: "'a collector" where
  "collector_init = \<lparr>all_data = [], start_idx = 0, total_collected = 0, fetches = 0\<rparr>"

function collect_loop ::
  "(nat \<Rightarrow> nat \<Rightarrow> 'a list) \<Rightarrow> nat \<Rightarrow> nat \<Rightarrow> 'a collector \<Rightarrow> 'a collector" where
  "collect_loop get_rising_stocks max_stocks page_size s =
     (if total_collected s < max_stocks then
        (let df = get_rising_stocks page_size (start_idx s) in
         if df = [] then s\<lparr>fetches := Suc (fetches s)\<rparr>
         else
           (let s1 = s\<lparr>all_data := all_data s @ [df],
                       total_collected := total_collected s + length df,
                       fetches := Suc (fetches s)\<rparr>
            in if length df < page_size then s1
               else collect_loop get_rising_stocks max_stocks page_size
                      (s1\<lparr>start_idx := start_idx s + page_size\<rparr>)))
      else s)"
  by pat_completeness auto
termination
  by (relation "measure (\<lambda>(f, m, p, s). m - total_collected s)")
    (auto simp: neq_Nil_conv)

declare collect_loop.simps [simp del]

text \<open>
  The base stage with the page size the source fixes, 100; \<open>pd.concat\<close> joins the
  pages in arrival order (the empty table when no page was collected).
\<close>

definition collect_pages ::
  "(nat \<Rightarrow> nat \<Rightarrow> 'a list) \<Rightarrow> nat \<Rightarrow> nat \<Rightarrow> 'a collector" where
  "collect_pages get_rising_stocks max_stocks page_size =
     collect_loop get_rising_stocks max_stocks page_size collector_init"

definition collect_base :: "(nat \<Rightarrow> nat \<Rightarrow> 'a list) \<Rightarrow> nat \<Rightarrow> 'a list" where
  "collect_base get_rising_stocks max_stocks =
     concat (all_data (collect_pages get_rising_stocks max_stocks 100))"

text \<open>Fetch functions used as concrete inputs below.\<close>

definition oversized_fetch :: "nat \<Rightarrow> nat \<Rightarrow> nat list" where
  "oversized_fetch page_size idx = replicate (page_size + 1) 0"

definition pages_100_100_37 :: "nat \<Rightarrow> nat \<Rightarrow> nat list" where
  "pages_100_100_37 page_size idx =
     (if idx = 0 then replicate 100 1
      else if idx = 100 then replicate 100 2
      else if idx = 200 then replicate 37 3
      else replicate 100 4)"

definition pages_100_empty :: "nat \<Rightarrow> nat \<Rightarrow> nat list" where
  "pages_100_empty page_size idx =
     (if idx = 0 then replicate 100 1
      else if idx = 100 then []
      else replicate 100 3)"

section \<open>Python strings and cells\<close>

text \<open>
  A Python \<open>str\<close> is a sequence of Unicode code points, so \<open>len\<close> and slicing count
  code points. It is modelled as a list of code points; \<open>ascii\<close> writes an ASCII
  literal. The Korean literals of the source are given by their code points, with an
  English gloss.
\<close>

type_synonym pystr = "nat list"

definition ascii :: "string \<Rightarrow> pystr" where
  "ascii s = map of_char s"

text \<open>\<open>sub in s\<close> on strings: \<open>sub\<close> occurs in \<open>s\<close> as a contiguous run.\<close>

fun contains :: "pystr \<Rightarrow> pystr \<Rightarrow> bool" where
  "contains sub [] = (sub = [])"
| "contains sub (c # cs) = (prefix sub (c # cs) \<or> contains sub cs)"

text \<open>
  \<open>s.split(sep)\<close> for a non-empty separator: the pieces between the occurrences of
  \<open>sep\<close>, found from left to right without overlap; \<open>cur\<close> is the piece being read.
\<close>

function split_str :: "pystr \<Rightarrow> pystr \<Rightarrow> pystr \<Rightarrow> pystr list" where
  "split_str sep cur s =
     (if s = [] then [cur]
      else if sep \<noteq> [] \<and> prefix sep s then cur # split_str sep [] (drop (length sep) s)
      else split_str sep (cur @ [hd s]) (tl s))"
  by pat_completeness auto
termination
  by (relation "measure (\<lambda>(sep, cur, s). length s)") auto

declare split_str.simps [simp del]

definition py_split :: "pystr \<Rightarrow> pystr \<Rightarrow> pystr list" where
  "py_split s sep = split_str sep [] s"

text \<open>\<open>xs[i]\<close> for a non-negative index: \<open>None\<close> stands for the IndexError.\<close>

fun index :: "'a list \<Rightarrow> nat \<Rightarrow> 'a option" where
  "index [] i = None"
| "index (x # xs) 0 = Some x"
| "index (x # xs) (Suc i) = index xs i"

text \<open>
  A cell of a data frame or of a sheet: a string, or the missing-value marker (\<open>NaN\<close>
  in the frame, an empty cell in the sheet).
\<close>

datatype cell = NaN | Text pystr

section \<open>The field mapper (get_rising_stocks)\<close>

text \<open>
  The code tables of the source. The display texts are Korean; the gloss gives their
  meaning.
\<close>

definition sosok_table :: "(pystr \<times> pystr) list" where
  "sosok_table =
     [(ascii ''0'', [53076, 49828, 54588]),   \<comment> \<open>KOSPI\<close>
      (ascii ''1'', [53076, 49828, 45797])]"  \<comment> \<open>KOSDAQ\<close>

definition status_table :: "(pystr \<times> pystr) list" where
  "status_table =
     [(ascii ''0'', [51221, 49345]),                 \<comment> \<open>normal\<close>
      (ascii ''1'', [44288, 47532, 51333, 47785]),   \<comment> \<open>managed issue\<close>
      (ascii ''2'', [53804, 51088, 51452, 51032]),   \<comment> \<open>investment caution\<close>
      (ascii ''9'', [44144, 47000, 51221, 51648])]"  \<comment> \<open>trading halted\<close>

definition risefall_table :: "(pystr \<times> pystr) list" where
  "risefall_table =
     [(ascii ''1'', [49345, 54620, 44032]),   \<comment> \<open>upper limit\<close>
      (ascii ''2'', [49345, 49849]),          \<comment> \<open>rise\<close>
      (ascii ''3'', [48372, 54633]),          \<comment> \<open>unchanged\<close>
      (ascii ''4'', [54616, 54620, 44032]),   \<comment> \<open>lower limit\<close>
      (ascii ''5'', [54616, 46973])]"         \<comment> \<open>fall\<close>

definition management_reason_map :: "(pystr \<times> pystr) list" where
  "management_reason_map =
     [(ascii ''6024'', [51088, 48376, 51104, 49885]),                       \<comment> \<open>capital impairment\<close>
      (ascii ''6025'', [50689, 50629, 49552, 49892, 32, 48156, 49373]),     \<comment> \<open>operating loss\<close>
      (ascii ''6026'', [47588, 52636, 50529, 32, 48120, 45804]),            \<comment> \<open>sales shortfall\<close>
      (ascii ''6027'', [48277, 51221, 44288, 47532]),                       \<comment> \<open>court receivership\<close>
      (ascii ''6028'', [51452, 44428, 32, 51116, 49345, 51109]),            \<comment> \<open>relisting\<close>
      (ascii ''6029'', [51648, 48176, 44396, 51312, 32, 48320, 44221]),     \<comment> \<open>governance change\<close>
      (ascii ''6051'', [44592, 53440]),                                     \<comment> \<open>other\<close>
      (ascii ''6052'', [54633, 48337]),                                     \<comment> \<open>merger\<close>
      (ascii ''6053'', [48516, 54624]),                                     \<comment> \<open>split\<close>
      (ascii ''6054'', [51452, 49885, 51060, 51204])]"                      \<comment> \<open>share transfer\<close>

definition market_alert_map :: "(pystr \<times> pystr) list" where
  "market_alert_map =
     [(ascii ''00'', [50630, 51020]),                 \<comment> \<open>none\<close>
      (ascii ''01'', [53804, 51088, 51452, 51032]),   \<comment> \<open>investment caution\<close>
      (ascii ''02'', [53804, 51088, 44221, 44256]),   \<comment> \<open>investment warning\<close>
      (ascii ''03'', [53804, 51088, 50948, 54744])]"  \<comment> \<open>investment risk\<close>

text \<open>
  A raw code is a JSON string, or \<open>None\<close> when the record has no value for the field
  (a \<open>NaN\<close> in the frame).

  \<open>Series.map(dict)\<close>, used for \<open>sosok\<close>, \<open>statusTag\<close> and \<open>risefall\<close>: a value that
  is not a key of the dict becomes \<open>NaN\<close>.
\<close>

definition series_map_dict :: "(pystr \<times> pystr) list \<Rightarrow> pystr option \<Rightarrow> cell" where
  "series_map_dict d x =
     (case x of
        None \<Rightarrow> NaN
      | Some c \<Rightarrow> (case map_of d c of None \<Rightarrow> NaN | Some t \<Rightarrow> Text t))"

text \<open>
  \<open>lambda x: table.get(str(x), '') if pd.notna(x) else ''\<close>, used for
  \<open>managementReasonCode\<close> and \<open>marketAlertType\<close>.
\<close>

definition get_or_empty :: "(pystr \<times> pystr) list \<Rightarrow> pystr option \<Rightarrow> cell" where
  "get_or_empty d x =
     (case x of
        None \<Rightarrow> Text []
      | Some c \<Rightarrow> (case map_of d c of None \<Rightarrow> Text [] | Some t \<Rightarrow> Text t))"

record raw_stock =
  itemcode :: pystr
  sosok :: "pystr option"
  statusTag :: "pystr option"
  risefall :: "pystr option"
  managementReasonCode :: "pystr option"
  marketAlertType :: "pystr option"

record stock =
  stock_code :: pystr          \<comment> \<open>column "stock code"\<close>
  market :: cell               \<comment> \<open>column "market segment"\<close>
  status :: cell               \<comment> \<open>column "status"\<close>
  change_class :: cell         \<comment> \<open>column "change classification"\<close>
  management_reason :: cell    \<comment> \<open>column "management reason"\<close>
  market_alert :: cell         \<comment> \<open>column "market alert"\<close>

text \<open>
  The part of \<open>get_rising_stocks\<close> that maps one raw record: the five code columns and
  the stock code, which gets the letter A (code point 65) in front.
\<close>

definition map_fields :: "raw_stock \<Rightarrow> stock" where
  "map_fields r =
     \<lparr>stock_code = 65 # itemcode r,
      market = series_map_dict sosok_table (sosok r),
      status = series_map_dict status_table (statusTag r),
      change_class = series_map_dict risefall_table (risefall r),
      management_reason = get_or_empty management_reason_map (managementReasonCode r),
      market_alert = get_or_empty market_alert_map (marketAlertType r)\<rparr>"

subsection \<open>The stock code of the listing page (get_search_top_stocks)\<close>

text \<open>
  \<open>href\<close> is the link's \<open>href\<close> attribute, \<open>None\<close> when the cell has no link or the
  link no such attribute. The result \<open>None\<close> stands for an IndexError.
\<close>

definition stock_code_of_href :: "pystr option \<Rightarrow> pystr option" where
  "stock_code_of_href href =
     (case href of
        None \<Rightarrow> Some []
      | Some h \<Rightarrow>
          if h \<noteq> [] \<and> contains (ascii ''code='') h then
            (case index (py_split h (ascii ''code='')) 1 of
               None \<Rightarrow> None
             | Some seg \<Rightarrow>
                 (case index (py_split seg (ascii ''&'')) 0 of
                    None \<Rightarrow> None
                  | Some c \<Rightarrow> Some (65 # c)))
          else Some [])"

text \<open>Records and links used as concrete inputs below.\<close>

definition raw_unknown_codes :: raw_stock where
  "raw_unknown_codes =
     \<lparr>itemcode = ascii ''005930'', sosok = Some (ascii ''2''), statusTag = Some (ascii ''7''),
      risefall = Some (ascii ''0''), managementReasonCode = Some (ascii ''9999''),
      marketAlertType = Some (ascii ''04'')\<rparr>"

definition raw_prefixed_code :: raw_stock where
  "raw_prefixed_code = raw_unknown_codes\<lparr>itemcode := ascii ''A005930''\<rparr>"

definition href_plain :: pystr where
  "href_plain = ascii ''/item/main.naver?code=005930''"

definition href_no_code :: pystr where
  "href_no_code = ascii ''/sise/lastsearch2.naver''"

definition href_prefixed :: pystr where
  "href_prefixed = ascii ''/item/main.naver?code=A005930&page=1''"

section \<open>The row enricher\<close>

subsection \<open>Library functions, times and responses\<close>

text \<open>
  A naive \<open>datetime\<close> is the number of microseconds since the epoch; an aware one
  carries an offset and cannot be compared with a naive one. The functions of the
  \<open>datetime\<close> library are parameters of the model: \<open>strptime_ymd\<close> is
  \<open>datetime.strptime(s, '%Y%m%d')\<close> and \<open>fromisoformat\<close> is
  \<open>datetime.fromisoformat\<close>, both \<open>None\<close> where the library raises ValueError;
  \<open>strftime_ymd\<close> is \<open>strftime('%Y-%m-%d')\<close>.
\<close>

datatype pydatetime = Naive int | Aware int

record pylib =
  strptime_ymd :: "pystr \<Rightarrow> int option"
  fromisoformat :: "pystr \<Rightarrow> pydatetime option"
  strftime_ymd :: "int \<Rightarrow> pystr"

definition day_us :: int where
  "day_us = 86400000000"

text \<open>\<open>datetime.now() - timedelta(days=months * 30)\<close>\<close>

definition cutoff_date :: "int \<Rightarrow> nat \<Rightarrow> int" where
  "cutoff_date now months = now - int (months * 30) * day_us"

text \<open>
  The outcome of \<open>requests.get\<close>, \<open>raise_for_status\<close> and \<open>response.json\<close>:
  \<open>Failed\<close> when any of them raises, the decoded body otherwise. Fields read with
  \<open>item.get(key, '')\<close> are strings, empty when the key is missing.
\<close>

datatype 'a http = Failed | Body 'a

record detail_body =
  upJongName :: pystr
  comment1 :: pystr
  comment2 :: pystr
  comment3 :: pystr

record news_item =
  n_datetime :: pystr
  n_title :: pystr
  officeId :: pystr
  articleId :: pystr

record notice_item =
  d_datetime :: pystr
  d_title :: pystr
  bizdateSeq :: pystr

record ir_item =
  writeDate :: pystr
  i_title :: pystr

text \<open>One collected item: the keys "title", "date" and "link" of the source's dicts.\<close>

record entry =
  title :: pystr
  date :: pystr
  link :: pystr

text \<open>\<open>s.replace(old, new)\<close> for a one-character \<open>old\<close>; \<open>sep.join(xs)\<close>.\<close>

definition replace_char :: "nat \<Rightarrow> pystr \<Rightarrow> pystr \<Rightarrow> pystr" where
  "replace_char old new s = concat (map (\<lambda>c. if c = old then new else [c]) s)"

fun join :: "pystr \<Rightarrow> pystr list \<Rightarrow> pystr" where
  "join sep [] = []"
| "join sep [x] = x"
| "join sep (x # y # ys) = x @ sep @ join sep (y # ys)"

definition clean_code :: "pystr \<Rightarrow> pystr" where
  "clean_code code = replace_char 65 [] code"

subsection \<open>get_stock_detail\<close>

text \<open>The pair is the sector and the description.\<close>

definition get_stock_detail :: "detail_body http \<Rightarrow> pystr \<times> pystr" where
  "get_stock_detail response =
     (case response of
        Failed \<Rightarrow> ([], [])
      | Body data \<Rightarrow>
          (upJongName data,
           join (ascii '' '') (filter (\<lambda>desc. desc \<noteq> []) [comment1 data, comment2 data, comment3 data])))"

subsection \<open>get_recent_news\<close>

definition news_entry :: "pylib \<Rightarrow> int \<Rightarrow> news_item \<Rightarrow> entry" where
  "news_entry lib news_date item =
     \<lparr>title = n_title item,
      date = strftime_ymd lib news_date,
      link = ascii ''https://n.news.naver.com/mnews/article/'' @ officeId item
               @ ascii ''/'' @ articleId item\<rparr>"

text \<open>
  The loop over the items of one cluster. \<open>Inl\<close> is an exception (a date that
  \<open>strptime\<close> rejects), which leaves the \<open>try\<close> block with the list collected so far;
  \<open>Inr\<close> is the end of the loop, by exhaustion or by \<open>break\<close>.
\<close>

fun news_items ::
  "pylib \<Rightarrow> int \<Rightarrow> nat \<Rightarrow> news_item list \<Rightarrow> entry list \<Rightarrow> entry list + entry list" where
  "news_items lib cutoff max_news [] news_list = Inr news_list"
| "news_items lib cutoff max_news (item # items) news_list =
     (if 8 \<le> length (n_datetime item) then
        (case strptime_ymd lib (take 8 (n_datetime item)) of
           None \<Rightarrow> Inl news_list
         | Some news_date \<Rightarrow>
             if cutoff \<le> news_date then
               (let news_list' = news_list @ [news_entry lib news_date item]
                in if max_news \<le> length news_list' then Inr news_list'
                   else news_items lib cutoff max_news items news_list')
             else news_items lib cutoff max_news items news_list)
      else news_items lib cutoff max_news items news_list)"

fun news_clusters ::
  "pylib \<Rightarrow> int \<Rightarrow> nat \<Rightarrow> news_item list list \<Rightarrow> entry list \<Rightarrow> entry list + entry list" where
  "news_clusters lib cutoff max_news [] news_list = Inr news_list"
| "news_clusters lib cutoff max_news (cluster # clusters) news_list =
     (case news_items lib cutoff max_news cluster news_list of
        Inl news_list' \<Rightarrow> Inl news_list'
      | Inr news_list' \<Rightarrow>
          if max_news \<le> length news_list' then Inr news_list'
          else news_clusters lib cutoff max_news clusters news_list')"

text \<open>The body is \<open>None\<close> when it has no key \<open>clusters\<close>.\<close>

definition get_recent_news ::
  "pylib \<Rightarrow> int \<Rightarrow> news_item list list option http \<Rightarrow> nat \<Rightarrow> nat \<Rightarrow> entry list" where
  "get_recent_news lib now response months max_news =
     (case response of
        Failed \<Rightarrow> []
      | Body None \<Rightarrow> []
      | Body (Some clusters) \<Rightarrow>
          (case news_clusters lib (cutoff_date now months) max_news clusters [] of
             Inl news_list \<Rightarrow> news_list
           | Inr news_list \<Rightarrow> news_list))"

subsection \<open>get_recent_notices\<close>

text \<open>
  The link to the filing: built from the part of \<open>bizdateSeq\<close> before the first
  underscore, empty when there is no underscore. \<open>None\<close> stands for an IndexError.
\<close>

definition notice_link :: "pystr \<Rightarrow> pystr option" where
  "notice_link biz_seq =
     (if contains (ascii ''_'') biz_seq then
        (case index (py_split biz_seq (ascii ''_'')) 0 of
           None \<Rightarrow> None
         | Some seg \<Rightarrow> Some (ascii ''https://dart.fss.or.kr/dsaf001/main.do?rcpNo='' @ seg))
      else Some [])"

text \<open>
  The loop over the items; every item is handled in a \<open>try\<close> block of its own, so an
  exception skips the item. Comparing an aware date with the naive cutoff raises
  TypeError.
\<close>

fun notice_items ::
  "pylib \<Rightarrow> int \<Rightarrow> nat \<Rightarrow> notice_item list \<Rightarrow> entry list \<Rightarrow> entry list" where
  "notice_items lib cutoff max_notices [] notice_list = notice_list"
| "notice_items lib cutoff max_notices (item # items) notice_list =
     (if d_datetime item \<noteq> [] then
        (case fromisoformat lib (replace_char 90 (ascii ''+00:00'') (d_datetime item)) of
           None \<Rightarrow> notice_items lib cutoff max_notices items notice_list
         | Some (Aware t) \<Rightarrow> notice_items lib cutoff max_notices items notice_list
         | Some (Naive notice_date) \<Rightarrow>
             if cutoff \<le> notice_date then
               (case notice_link (bizdateSeq item) of
                  None \<Rightarrow> notice_items lib cutoff max_notices items notice_list
                | Some l \<Rightarrow>
                    (let notice_list' = notice_list @
                           [\<lparr>title = d_title item, date = strftime_ymd lib notice_date, link = l\<rparr>]
                     in if max_notices \<le> length notice_list' then notice_list'
                        else notice_items lib cutoff max_notices items notice_list'))
             else notice_items lib cutoff max_notices items notice_list)
      else notice_items lib cutoff max_notices items notice_list)"

text \<open>The body is \<open>None\<close> when it is not a list.\<close>

definition get_recent_notices ::
  "pylib \<Rightarrow> int \<Rightarrow> notice_item list option http \<Rightarrow> nat \<Rightarrow> nat \<Rightarrow> entry list" where
  "get_recent_notices lib now response months max_notices =
     (case response of
        Failed \<Rightarrow> []
      | Body None \<Rightarrow> []
      | Body (Some data) \<Rightarrow> notice_items lib (cutoff_date now months) max_notices data [])"

subsection \<open>get_recent_ir\<close>

fun ir_items :: "pylib \<Rightarrow> int \<Rightarrow> nat \<Rightarrow> ir_item list \<Rightarrow> entry list \<Rightarrow> entry list" where
  "ir_items lib cutoff max_ir [] ir_list = ir_list"
| "ir_items lib cutoff max_ir (item # items) ir_list =
     (if 8 \<le> length (writeDate item) then
        (case strptime_ymd lib (take 8 (writeDate item)) of
           None \<Rightarrow> ir_items lib cutoff max_ir items ir_list
         | Some ir_date \<Rightarrow>
             if cutoff \<le> ir_date then
               (let ir_list' = ir_list @
                      [\<lparr>title = i_title item, date = strftime_ymd lib ir_date, link = []\<rparr>]
                in if max_ir \<le> length ir_list' then ir_list'
                   else ir_items lib cutoff max_ir items ir_list')
             else ir_items lib cutoff max_ir items ir_list)
      else ir_items lib cutoff max_ir items ir_list)"

definition get_recent_ir ::
  "pylib \<Rightarrow> int \<Rightarrow> ir_item list option http \<Rightarrow> nat \<Rightarrow> nat \<Rightarrow> entry list" where
  "get_recent_ir lib now response months max_ir =
     (case response of
        Failed \<Rightarrow> []
      | Body None \<Rightarrow> []
      | Body (Some data) \<Rightarrow> ir_items lib (cutoff_date now months) max_ir data [])"

section \<open>The enrichment stages of collect_all_data\<close>

text \<open>
  A row of the frame: the columns written by the field mapper, and the columns added by
  the enrichment stages, by name. A column that a stage has not written for the row is
  \<open>None\<close>.
\<close>

record row =
  base :: stock
  cols :: "pystr \<rightharpoonup> cell"

text \<open>
  What the provider answers to the four requests made for one row, and the clock
  reading \<open>datetime.now()\<close> of each facet call. The provider is a function of the
  position of the row and of the code requested.
\<close>

record responses =
  detail_response :: "detail_body http"
  news_response :: "news_item list list option http"
  news_now :: int
  notice_response :: "notice_item list option http"
  notice_now :: int
  ir_response :: "ir_item list option http"
  ir_now :: int

type_synonym provider = "nat \<Rightarrow> pystr \<Rightarrow> responses"

text \<open>
  Column names: "news", "filing" and \<open>IR\<close>, followed by the slot number; the suffixes
  "_date" and "_link"; the columns "sector" and "description".
\<close>

definition news_name :: pystr where "news_name = [45684, 49828]"
definition notice_name :: pystr where "notice_name = [44277, 49884]"
definition ir_name :: pystr where "ir_name = ascii ''IR''"
definition date_suffix :: pystr where "date_suffix = [95, 51068, 51088]"
definition link_suffix :: pystr where "link_suffix = [95, 47553, 53356]"
definition sector_col :: pystr where "sector_col = [50629, 51333]"
definition description_col :: pystr where "description_col = [51333, 47785, 49444, 47749]"

text \<open>\<open>str(n)\<close> for a one-digit number.\<close>

definition str_digit :: "nat \<Rightarrow> pystr" where
  "str_digit n = [48 + n]"

text \<open>
  The assignments \<open>result_df.at[idx, column] = value\<close> made for slot \<open>i\<close> of a facet,
  in the order of the source; the IR slots have no link column. \<open>[:50]\<close> keeps the
  first 50 characters of the title.
\<close>

definition slot_writes :: "pystr \<Rightarrow> bool \<Rightarrow> entry list \<Rightarrow> nat \<Rightarrow> (pystr \<times> cell) list" where
  "slot_writes name with_link xs i =
     (let col = name @ str_digit (i + 1) in
      if i < length xs then
        [(col, Text (take 50 (title (xs ! i)))),
         (col @ date_suffix, Text (date (xs ! i)))]
        @ (if with_link then [(col @ link_suffix, Text (link (xs ! i)))] else [])
      else
        [(col, Text []),
         (col @ date_suffix, Text [])]
        @ (if with_link then [(col @ link_suffix, Text [])] else []))"

text \<open>\<open>for i in range(3)\<close>\<close>

definition facet_writes :: "pystr \<Rightarrow> bool \<Rightarrow> entry list \<Rightarrow> (pystr \<times> cell) list" where
  "facet_writes name with_link xs = concat (map (slot_writes name with_link xs) [0, 1, 2])"

definition set_cells :: "(pystr \<times> cell) list \<Rightarrow> (pystr \<rightharpoonup> cell) \<Rightarrow> (pystr \<rightharpoonup> cell)" where
  "set_cells ws c = fold (\<lambda>(k, v) m. m(k \<mapsto> v)) ws c"

text \<open>Stage 2 for one row: the profile fetch and its two columns.\<close>

definition add_detail :: "provider \<Rightarrow> nat \<Rightarrow> row \<Rightarrow> row" where
  "add_detail provider idx r =
     (let detail = get_stock_detail
                     (detail_response (provider idx (clean_code (stock_code (base r)))))
      in r\<lparr>cols := (cols r)(sector_col \<mapsto> Text (fst detail),
                               description_col \<mapsto> Text (snd detail))\<rparr>)"

text \<open>
  Stage 3 for one row: the three facet fetches with their default arguments (3 months,
  at most 3 items) and the columns of their slots.
\<close>

definition add_facets :: "pylib \<Rightarrow> provider \<Rightarrow> nat \<Rightarrow> row \<Rightarrow> row" where
  "add_facets lib provider idx r =
     (let answers = provider idx (clean_code (stock_code (base r)));
          news = get_recent_news lib (news_now answers) (news_response answers) 3 3;
          c1 = set_cells (facet_writes news_name True news) (cols r);
          notices = get_recent_notices lib (notice_now answers) (notice_response answers) 3 3;
          c2 = set_cells (facet_writes notice_name True notices) c1;
          ir_list = get_recent_ir lib (ir_now answers) (ir_response answers) 3 3;
          c3 = set_cells (facet_writes ir_name False ir_list) c2
      in r\<lparr>cols := c3\<rparr>)"

text \<open>\<open>for idx, row in result_df.iterrows()\<close>\<close>

definition each_row :: "(nat \<Rightarrow> row \<Rightarrow> row) \<Rightarrow> row list \<Rightarrow> row list" where
  "each_row f result_df = map (\<lambda>(idx, r). f idx r) (enumerate 0 result_df)"

definition collect_all_data ::
  "pylib \<Rightarrow> (nat \<Rightarrow> nat \<Rightarrow> stock list) \<Rightarrow> provider \<Rightarrow> nat \<Rightarrow> bool \<Rightarrow> bool \<Rightarrow> row list" where
  "collect_all_data lib get_rising_stocks provider max_stocks include_detail include_news =
     (let pages = all_data (collect_pages get_rising_stocks max_stocks 100) in
      if pages = [] then []
      else
        (let result_df = map (\<lambda>s. \<lparr>base = s, cols = Map.empty\<rparr>) (concat pages);
             result_df = (if include_detail then each_row (add_detail provider) result_df
                          else result_df);
             result_df = (if include_news then each_row (add_facets lib provider) result_df
                          else result_df)
         in result_df))"

text \<open>
  Slot \<open>i\<close> of a facet, as the specification describes it: the item found at
  position \<open>i\<close>, or the empty triple when fewer items were found.
\<close>

definition slot :: "entry list \<Rightarrow> nat \<Rightarrow> entry" where
  "slot xs i = (if i < length xs then xs ! i else \<lparr>title = [], date = [], link = []\<rparr>)"

text \<open>The 24 columns that stage 3 writes, and the columns of stage 2.\<close>

definition facet_columns :: "pystr list" where
  "facet_columns =
     concat (map (\<lambda>i. [news_name @ str_digit i, news_name @ str_digit i @ date_suffix,
                          news_name @ str_digit i @ link_suffix,
                          notice_name @ str_digit i, notice_name @ str_digit i @ date_suffix,
                          notice_name @ str_digit i @ link_suffix,
                          ir_name @ str_digit i, ir_name @ str_digit i @ date_suffix])
                 [1, 2, 3])"

definition detail_columns :: "bool \<Rightarrow> pystr list" where
  "detail_columns include_detail = (if include_detail then [sector_col, description_col] else [])"

subsection \<open>A concrete library and concrete answers\<close>

text \<open>
  The Gregorian calendar, for strings of eight ASCII digits and for ISO dates of the
  form \<open>YYYY-MM-DD\<close>, optionally followed by \<open>+00:00\<close>.
\<close>

fun digits_val :: "pystr \<Rightarrow> nat \<Rightarrow> nat option" where
  "digits_val [] acc = Some acc"
| "digits_val (c # cs) acc =
     (if 48 \<le> c \<and> c \<le> 57 then digits_val cs (10 * acc + (c - 48)) else None)"

definition days_in_month :: "nat \<Rightarrow> nat \<Rightarrow> nat" where
  "days_in_month y m =
     (if m = 2 then (if y mod 4 = 0 \<and> (y mod 100 \<noteq> 0 \<or> y mod 400 = 0) then 29 else 28)
      else if m \<in> {4, 6, 9, 11} then 30 else 31)"

definition days_from_civil :: "nat \<Rightarrow> nat \<Rightarrow> nat \<Rightarrow> int" where
  "days_from_civil y m d =
     (let y' = (if m \<le> 2 then int y - 1 else int y);
          era = y' div 400;
          yoe = y' - era * 400;
          doy = (153 * (if 2 < m then int m - 3 else int m + 9) + 2) div 5 + int d - 1;
          doe = yoe * 365 + yoe div 4 - yoe div 100 + doy
      in era * 146097 + doe - 719468)"

definition civil_from_days :: "int \<Rightarrow> nat \<times> nat \<times> nat" where
  "civil_from_days z0 =
     (let z = z0 + 719468;
          era = z div 146097;
          doe = z - era * 146097;
          yoe = (doe - doe div 1460 + doe div 36524 - doe div 146096) div 365;
          doy = doe - (365 * yoe + yoe div 4 - yoe div 100);
          mp = (5 * doy + 2) div 153;
          d = doy - (153 * mp + 2) div 5 + 1;
          m = (if mp < 10 then mp + 3 else mp - 9);
          y = yoe + era * 400 + (if m \<le> 2 then 1 else 0)
      in (nat y, nat m, nat d))"

definition civil_date :: "pystr \<Rightarrow> pystr \<Rightarrow> pystr \<Rightarrow> int option" where
  "civil_date ys ms ds =
     (case (digits_val ys 0, digits_val ms 0, digits_val ds 0) of
        (Some y, Some m, Some d) \<Rightarrow>
          if 1 \<le> y \<and> 1 \<le> m \<and> m \<le> 12 \<and> 1 \<le> d \<and> d \<le> days_in_month y m
          then Some (days_from_civil y m d * day_us) else None
      | _ \<Rightarrow> None)"

definition cal_strptime_ymd :: "pystr \<Rightarrow> int option" where
  "cal_strptime_ymd s =
     (if length s = 8 then civil_date (take 4 s) (take 2 (drop 4 s)) (drop 6 s) else None)"

definition cal_fromisoformat :: "pystr \<Rightarrow> pydatetime option" where
  "cal_fromisoformat s =
     (if 10 \<le> length s \<and> s ! 4 = 45 \<and> s ! 7 = 45
         \<and> (drop 10 s = [] \<or> drop 10 s = ascii ''+00:00'') then
        (case civil_date (take 4 s) (take 2 (drop 5 s)) (take 2 (drop 8 s)) of
           None \<Rightarrow> None
         | Some t \<Rightarrow> Some (if drop 10 s = [] then Naive t else Aware t))
      else None)"

definition pad2 :: "nat \<Rightarrow> pystr" where
  "pad2 n = [48 + n div 10 mod 10, 48 + n mod 10]"

definition pad4 :: "nat \<Rightarrow> pystr" where
  "pad4 n = pad2 (n div 100) @ pad2 n"

definition cal_strftime_ymd :: "int \<Rightarrow> pystr" where
  "cal_strftime_ymd t =
     (case civil_from_days (t div day_us) of
        (y, m, d) \<Rightarrow> pad4 y @ ascii ''-'' @ pad2 m @ ascii ''-'' @ pad2 d)"

definition calendar :: pylib where
  "calendar = \<lparr>strptime_ymd = cal_strptime_ymd, fromisoformat = cal_fromisoformat,
               strftime_ymd = cal_strftime_ymd\<rparr>"

subsection \<open>The items a facet fetch keeps, as the amended specification has them\<close>


definition recent_notice :: "pylib \<Rightarrow> int \<Rightarrow> notice_item \<Rightarrow> entry option" where
  "recent_notice lib cutoff item =
     (if d_datetime item \<noteq> [] then
        (case fromisoformat lib (replace_char 90 (ascii ''+00:00'') (d_datetime item)) of
           Some (Naive d) \<Rightarrow>
             if cutoff \<le> d then
               (case notice_link (bizdateSeq item) of
                  None \<Rightarrow> None
                | Some l \<Rightarrow> Some \<lparr>title = d_title item, date = strftime_ymd lib d, link = l\<rparr>)
             else None
         | _ \<Rightarrow> None)
      else None)"

definition recent_ir :: "pylib \<Rightarrow> int \<Rightarrow> ir_item \<Rightarrow> entry option" where
  "recent_ir lib cutoff item =
     (if 8 \<le> length (writeDate item) then
        (case strptime_ymd lib (take 8 (writeDate item)) of
           None \<Rightarrow> None
         | Some d \<Rightarrow>
             if cutoff \<le> d
             then Some \<lparr>title = i_title item, date = strftime_ymd lib d, link = []\<rparr>
             else None)
      else None)"

subsection \<open>One failing fetch\<close>

text \<open>
  The four fetches made for a row. \<open>fail_at k f provider\<close> is the provider that answers
  as \<open>provider\<close> does, except that the fetch \<open>f\<close> made for row \<open>k\<close> raises.
  \<open>facet_cols f\<close> are the columns written from the result of the fetch \<open>f\<close>.
\<close>

datatype facet = Profile | News | Filing | IR

fun fail_facet :: "facet \<Rightarrow> responses \<Rightarrow> responses" where
  "fail_facet Profile a = a\<lparr>detail_response := Failed\<rparr>"
| "fail_facet News a = a\<lparr>news_response := Failed\<rparr>"
| "fail_facet Filing a = a\<lparr>notice_response := Failed\<rparr>"
| "fail_facet IR a = a\<lparr>ir_response := Failed\<rparr>"

definition fail_at :: "nat \<Rightarrow> facet \<Rightarrow> provider \<Rightarrow> provider" where
  "fail_at k f provider idx code =
     (if idx = k then fail_facet f (provider idx code) else provider idx code)"

fun facet_cols :: "facet \<Rightarrow> pystr list" where
  "facet_cols Profile = [sector_col, description_col]"
| "facet_cols News =
     concat (map (\<lambda>i. [news_name @ str_digit i, news_name @ str_digit i @ date_suffix,
                          news_name @ str_digit i @ link_suffix]) [1, 2, 3])"
| "facet_cols Filing =
     concat (map (\<lambda>i. [notice_name @ str_digit i, notice_name @ str_digit i @ date_suffix,
                          notice_name @ str_digit i @ link_suffix]) [1, 2, 3])"
| "facet_cols IR =
     concat (map (\<lambda>i. [ir_name @ str_digit i, ir_name @ str_digit i @ date_suffix]) [1, 2, 3])"

subsection \<open>Concrete runs\<close>

text \<open>
  A listing of two stocks on one page. The clock reads 2024-04-01 00:00:00 at every
  call, so the cutoff for 3 months is 2024-01-02 00:00:00. The first row gets an answer
  to every request; every request for the second row fails.
\<close>

definition two_stocks :: "nat \<Rightarrow> nat \<Rightarrow> stock list" where
  "two_stocks page_size idx =
     (if idx = 0 then [map_fields raw_unknown_codes, map_fields raw_prefixed_code] else [])"

definition april_1 :: int where
  "april_1 = 1711929600000000"

definition long_title :: pystr where
  "long_title = ascii ''Quarterly results beat every forecast as chip exports recover strongly''"

definition news_march :: news_item where
  "news_march = \<lparr>n_datetime = ascii ''20240315093000'', n_title = long_title,
                  officeId = ascii ''001'', articleId = ascii ''0014567890''\<rparr>"

definition news_at_cutoff :: news_item where
  "news_at_cutoff = \<lparr>n_datetime = ascii ''20240102000000'', n_title = ascii ''At the cutoff'',
                      officeId = ascii ''015'', articleId = ascii ''0004930001''\<rparr>"

definition news_old :: news_item where
  "news_old = \<lparr>n_datetime = ascii ''20240101235959'', n_title = ascii ''Too old'',
                officeId = ascii ''015'', articleId = ascii ''0004929999''\<rparr>"

definition notice_at_cutoff :: notice_item where
  "notice_at_cutoff = \<lparr>d_datetime = ascii ''2024-01-02'', d_title = ascii ''Annual report'',
                        bizdateSeq = ascii ''20240102000123_1''\<rparr>"

definition ir_at_cutoff :: ir_item where
  "ir_at_cutoff = \<lparr>writeDate = ascii ''20240102'', i_title = ascii ''Investor day''\<rparr>"

definition answers_ok :: responses where
  "answers_ok =
     \<lparr>detail_response = Body \<lparr>upJongName = ascii ''Semiconductors'',
                               comment1 = ascii ''Makes memory chips.'', comment2 = [],
                               comment3 = ascii ''Exports worldwide.''\<rparr>,
      news_response = Body (Some [[news_march, news_old], [news_at_cutoff]]),
      news_now = april_1,
      notice_response = Body (Some [notice_at_cutoff]),
      notice_now = april_1,
      ir_response = Body (Some [ir_at_cutoff]),
      ir_now = april_1\<rparr>"

definition answers_failed :: responses where
  "answers_failed =
     \<lparr>detail_response = Failed, news_response = Failed, news_now = april_1,
      notice_response = Failed, notice_now = april_1,
      ir_response = Failed, ir_now = april_1\<rparr>"

definition provider_demo :: provider where
  "provider_demo idx code = (if idx = 0 then answers_ok else answers_failed)"

section \<open>Properties of the paginated collector\<close>

lemma collect_loop_fetches:
  "0 < p \<Longrightarrow>
   fetches (collect_loop f m p s) \<le> fetches s + (m - total_collected s + p - 1) div p"
proof (induction f m p s rule: collect_loop.induct)
  case (1 f m p s)
  show ?case
  proof (cases "total_collected s < m")
    case False
    then show ?thesis by (simp add: collect_loop.simps)
  next
    case lt: True
    let ?df = "f p (start_idx s)"
    from lt \<open>0 < p\<close> have one: "1 \<le> (m - total_collected s + p - 1) div p"
      by (simp add: Suc_le_eq div_greater_zero_iff)
    show ?thesis
    proof (cases "?df = [] \<or> length ?df < p")
      case True
      with lt one show ?thesis by (auto simp: collect_loop.simps [of f m p s] Let_def)
    next
      case False
      then have ne: "?df \<noteq> []" and ge: "p \<le> length ?df" by auto
      let ?s1 = "s\<lparr>all_data := all_data s @ [?df],
                   total_collected := total_collected s + length ?df,
                   fetches := Suc (fetches s)\<rparr>"
      let ?s2 = "?s1\<lparr>start_idx := start_idx s + p\<rparr>"
      have eq: "collect_loop f m p s = collect_loop f m p ?s2"
        using lt ne ge by (simp add: collect_loop.simps [of f m p s] Let_def)
      have ih: "fetches (collect_loop f m p ?s2)
                \<le> fetches ?s2 + (m - total_collected ?s2 + p - 1) div p"
        using "1.IH" [OF lt refl ne refl] ge \<open>0 < p\<close> by simp
      have "(m - (total_collected s + length ?df) + p - 1) div p + 1
            \<le> (m - total_collected s + p - 1) div p"
      proof (cases "m \<le> total_collected s + length ?df")
        case True
        then have "(m - (total_collected s + length ?df) + p - 1) div p = 0"
          using \<open>0 < p\<close> by simp
        with one show ?thesis by simp
      next
        case False
        define k where "k = m - (total_collected s + length ?df) + p - 1"
        have "k + p \<le> m - total_collected s + p - 1"
          using False ge by (simp add: k_def)
        then have "(k + p) div p \<le> (m - total_collected s + p - 1) div p"
          by (rule div_le_mono)
        moreover have "(k + p) div p = k div p + 1"
          using \<open>0 < p\<close> div_add_self2 [of p k] by simp
        ultimately show ?thesis by (simp add: k_def)
      qed
      with ih eq show ?thesis by simp
    qed
  qed
qed

lemma collect_loop_length:
  "length (concat (all_data s)) = total_collected s \<Longrightarrow>
   length (concat (all_data (collect_loop f m p s))) = total_collected (collect_loop f m p s)"
proof (induction f m p s rule: collect_loop.induct)
  case (1 f m p s)
  show ?case
  proof (cases "total_collected s < m \<and> f p (start_idx s) \<noteq> []
                \<and> \<not> length (f p (start_idx s)) < p")
    case True
    then show ?thesis
      using "1.IH" [OF _ refl _ refl] "1.prems"
      by (simp add: collect_loop.simps [of f m p s] Let_def)
  next
    case False
    then show ?thesis using "1.prems"
      by (auto simp: collect_loop.simps [of f m p s] Let_def)
  qed
qed

lemma collect_loop_total:
  "\<forall>i. length (f p i) \<le> p \<Longrightarrow>
   total_collected (collect_loop f m p s) \<le> max (total_collected s) (m + p - 1)"
proof (induction f m p s rule: collect_loop.induct)
  case (1 f m p s)
  from "1.prems" have le: "length (f p (start_idx s)) \<le> p" by simp
  show ?case
  proof (cases "total_collected s < m \<and> f p (start_idx s) \<noteq> []
                \<and> \<not> length (f p (start_idx s)) < p")
    case True
    then show ?thesis
      using "1.IH" [OF _ refl _ refl] "1.prems" le
      by (auto simp: collect_loop.simps [of f m p s] Let_def max_def split: if_splits)
  next
    case False
    then show ?thesis using le
      by (auto simp: collect_loop.simps [of f m p s] Let_def)
  qed
qed

lemma ceil_div_le:
  assumes "0 < p"
  shows "(m + p - 1) div p \<le> nat \<lceil>real m / real p\<rceil>"
proof -
  define c where "c = nat \<lceil>real m / real p\<rceil>"
  have "0 \<le> real m / real p" by simp
  then have "0 \<le> \<lceil>real m / real p\<rceil>" by (simp only: zero_le_ceiling)
  then have cr: "real c = of_int \<lceil>real m / real p\<rceil>" by (simp add: c_def)
  have "real m \<le> of_int \<lceil>real m / real p\<rceil> * real p"
    using assms by (intro ceiling_divide_upper) simp
  with cr have "real m \<le> real (c * p)" by simp
  then have "m \<le> c * p" by (simp only: of_nat_le_iff)
  with assms have "m + p - 1 < (c + 1) * p" by simp
  then have "(m + p - 1) div p < c + 1"
    using assms by (simp add: less_mult_imp_div_less)
  then show ?thesis by (simp add: c_def)
qed

lemma collect_pages_fetches:
  "0 < page_size \<Longrightarrow>
   fetches (collect_pages f max_stocks page_size) \<le> nat \<lceil>real max_stocks / real page_size\<rceil>"
  using collect_loop_fetches [of page_size f max_stocks collector_init]
    ceil_div_le [of page_size max_stocks]
  by (simp add: collect_pages_def collector_init_def)

lemma collect_pages_records:
  "\<forall>i. length (f page_size i) \<le> page_size \<Longrightarrow>
   length (concat (all_data (collect_pages f max_stocks page_size)))
     \<le> max_stocks + page_size - 1"
  using collect_loop_total [of f page_size max_stocks collector_init]
    collect_loop_length [of collector_init f max_stocks page_size]
  by (simp add: collect_pages_def collector_init_def)

text \<open>
  Claim C1, as the code has it. The loop is a total function, so it always returns. For
  every fetch function and every positive page size it runs at most
  \<open>ceil(max_stocks / page_size)\<close> times, hence within the claimed
  \<open>ceil(max_stocks / page_size) + 1\<close> iterations. The number of records returned is at
  most \<open>max_stocks + page_size - 1\<close> when no fetched page holds more than \<open>page_size\<close>
  records; the code appends every page in full and never cuts one down to \<open>page_size\<close>.
\<close>

theorem C1_collector_bounds:
  "0 < page_size \<longrightarrow>
     fetches (collect_pages f max_stocks page_size)
       \<le> nat \<lceil>real max_stocks / real page_size\<rceil> + 1
     \<and> ((\<forall>i. length (f page_size i) \<le> page_size) \<longrightarrow>
          length (concat (all_data (collect_pages f max_stocks page_size)))
            \<le> max_stocks + page_size - 1)"
  using collect_pages_fetches [of page_size f max_stocks]
    collect_pages_records [of f page_size max_stocks]
  by auto

theorem C1_collector_bounds_witness:
  "0 < (100::nat)
   \<and> (\<forall>i. length (pages_100_100_37 100 i) \<le> 100)
   \<and> fetches (collect_pages pages_100_100_37 1000 100) \<le> nat \<lceil>real 1000 / real 100\<rceil> + 1
   \<and> length (concat (all_data (collect_pages pages_100_100_37 1000 100))) \<le> 1000 + 100 - 1"
proof -
  have h: "\<forall>i. length (pages_100_100_37 100 i) \<le> 100"
    by (simp add: pages_100_100_37_def)
  show ?thesis
    using h C1_collector_bounds [of 100 pages_100_100_37 1000] by simp
qed

text \<open>
  Claim C1 as stated fails: it bounds the records for every sequence of fetched pages.
  When the provider answers a request for 100 records with 101 and \<open>max_stocks\<close> is 1,
  the base stage returns all 101 records, more than \<open>1 + 100 - 1\<close>.
\<close>

theorem C1_oversized_page_counterexample:
  "\<not> length (collect_base oversized_fetch 1) \<le> 1 + 100 - 1"
  by (simp add: collect_base_def collect_pages_def collector_init_def
      collect_loop.simps oversized_fetch_def Let_def)

text \<open>
  Claim C4. With the source's page size 100 and \<open>max_stocks\<close> above 200, pages of 100,
  100 and 37 records give exactly these 237 records after three fetches: the short third
  page is appended and ends the loop. With \<open>max_stocks\<close> above 100, a full first page
  and an empty second page give exactly the first page's records, after two fetches.
\<close>

theorem C4_short_and_empty_page:
  "(length (f 100 0) = 100 \<and> length (f 100 100) = 100 \<and> length (f 100 200) = 37
      \<and> 200 < max_stocks \<longrightarrow>
      collect_base f max_stocks = f 100 0 @ f 100 100 @ f 100 200
      \<and> length (collect_base f max_stocks) = 237
      \<and> fetches (collect_pages f max_stocks 100) = 3)
   \<and> (length (f 100 0) = 100 \<and> f 100 100 = [] \<and> 100 < max_stocks \<longrightarrow>
      collect_base f max_stocks = f 100 0
      \<and> fetches (collect_pages f max_stocks 100) = 2)"
  by (auto simp: collect_base_def collect_pages_def collector_init_def
      collect_loop.simps Let_def)

theorem C4_short_and_empty_page_witness:
  "length (collect_base pages_100_100_37 1000) = 237
   \<and> fetches (collect_pages pages_100_100_37 1000 100) = 3
   \<and> collect_base pages_100_empty 1000 = replicate 100 1
   \<and> fetches (collect_pages pages_100_empty 1000 100) = 2"
  using C4_short_and_empty_page [of pages_100_100_37 1000]
    C4_short_and_empty_page [of pages_100_empty 1000]
  by (simp add: pages_100_100_37_def pages_100_empty_def)

section \<open>Properties of the field mapper\<close>

lemma split_str_nonempty: "split_str sep cur s \<noteq> []"
proof (induction sep cur s rule: split_str.induct)
  case (1 sep cur s)
  then show ?case by (subst split_str.simps) auto
qed

lemma split_str_length:
  "sep \<noteq> [] \<Longrightarrow> contains sep s \<Longrightarrow> 2 \<le> length (split_str sep cur s)"
proof (induction sep cur s rule: split_str.induct)
  case (1 sep cur s)
  show ?case
  proof (cases s)
    case Nil
    with "1.prems" show ?thesis by simp
  next
    case (Cons c cs)
    show ?thesis
    proof (cases "prefix sep s")
      case True
      have "split_str sep [] (drop (length sep) s) \<noteq> []"
        by (rule split_str_nonempty)
      then have "1 \<le> length (split_str sep [] (drop (length sep) s))"
        by (simp add: Suc_le_eq)
      with True Cons "1.prems" show ?thesis
        by (subst split_str.simps) simp
    next
      case False
      with Cons "1.prems" have "contains sep cs" by simp
      with "1.IH"(2) False Cons "1.prems"
      have "2 \<le> length (split_str sep (cur @ [hd s]) (tl s))"
        by simp
      with False Cons show ?thesis
        by (subst split_str.simps) simp
    qed
  qed
qed

lemma index_Some: "i < length xs \<Longrightarrow> \<exists>x. index xs i = Some x"
  by (induction xs i rule: index.induct) auto

lemma contains_nonempty: "contains sub s \<Longrightarrow> sub \<noteq> [] \<Longrightarrow> s \<noteq> []"
  by (cases s) auto

lemma two_pieces: "2 \<le> length xs \<Longrightarrow> \<exists>p seg rest. xs = p # seg # rest"
  by (cases xs; cases "tl xs") auto

lemma stock_code_of_href_code:
  assumes "contains (ascii ''code='') h"
  shows "\<exists>p seg rest c rest'.
           py_split h (ascii ''code='') = p # seg # rest
           \<and> py_split seg (ascii ''&'') = c # rest'
           \<and> stock_code_of_href (Some h) = Some (65 # c)"
proof -
  have ne: "h \<noteq> []"
    using assms by (rule contains_nonempty) (simp add: ascii_def)
  have "2 \<le> length (py_split h (ascii ''code=''))"
    unfolding py_split_def using assms by (intro split_str_length) (simp_all add: ascii_def)
  then obtain p seg rest where s1: "py_split h (ascii ''code='') = p # seg # rest"
    using two_pieces by blast
  have "py_split seg (ascii ''&'') \<noteq> []"
    unfolding py_split_def by (rule split_str_nonempty)
  then obtain c rest' where s2: "py_split seg (ascii ''&'') = c # rest'"
    by (cases "py_split seg (ascii ''&'')") auto
  have "stock_code_of_href (Some h) = Some (65 # c)"
    using assms ne s1 s2 by (simp add: stock_code_of_href_def)
  with s1 s2 show ?thesis by blast
qed

lemma stock_code_of_href_no_code:
  "\<not> contains (ascii ''code='') h \<Longrightarrow> stock_code_of_href (Some h) = Some []"
  by (simp add: stock_code_of_href_def)

text \<open>
  Claim C6, as the code has it. A code that is not in its table resolves, without any
  error, to the empty string for the management reason and the market alert, and to the
  missing-value marker \<open>NaN\<close> for the market segment, the status and the change
  classification, which go through \<open>Series.map\<close> with a plain dict.
\<close>

theorem C6_unknown_code:
  "(sosok r = Some c1 \<and> map_of sosok_table c1 = None \<longrightarrow> market (map_fields r) = NaN)
   \<and> (statusTag r = Some c2 \<and> map_of status_table c2 = None \<longrightarrow> status (map_fields r) = NaN)
   \<and> (risefall r = Some c3 \<and> map_of risefall_table c3 = None \<longrightarrow>
        change_class (map_fields r) = NaN)
   \<and> (managementReasonCode r = Some c4 \<and> map_of management_reason_map c4 = None \<longrightarrow>
        management_reason (map_fields r) = Text [])
   \<and> (marketAlertType r = Some c5 \<and> map_of market_alert_map c5 = None \<longrightarrow>
        market_alert (map_fields r) = Text [])"
  by (simp add: map_fields_def series_map_dict_def get_or_empty_def)

theorem C6_unknown_code_witness:
  "market (map_fields raw_unknown_codes) = NaN
   \<and> status (map_fields raw_unknown_codes) = NaN
   \<and> change_class (map_fields raw_unknown_codes) = NaN
   \<and> management_reason (map_fields raw_unknown_codes) = Text []
   \<and> market_alert (map_fields raw_unknown_codes) = Text []"
proof -
  have h: "sosok raw_unknown_codes = Some (ascii ''2'')
      \<and> map_of sosok_table (ascii ''2'') = None
      \<and> statusTag raw_unknown_codes = Some (ascii ''7'')
      \<and> map_of status_table (ascii ''7'') = None
      \<and> risefall raw_unknown_codes = Some (ascii ''0'')
      \<and> map_of risefall_table (ascii ''0'') = None
      \<and> managementReasonCode raw_unknown_codes = Some (ascii ''9999'')
      \<and> map_of management_reason_map (ascii ''9999'') = None
      \<and> marketAlertType raw_unknown_codes = Some (ascii ''04'')
      \<and> map_of market_alert_map (ascii ''04'') = None"
    by (simp add: raw_unknown_codes_def sosok_table_def status_table_def risefall_table_def
        management_reason_map_def market_alert_map_def ascii_def)
  show ?thesis
    using h C6_unknown_code [of raw_unknown_codes "ascii ''2''" "ascii ''7''" "ascii ''0''"
        "ascii ''9999''" "ascii ''04''"]
    by simp
qed

text \<open>
  Claim C6 as stated fails: the market-segment code 2 is not in its table, and the field
  resolves to \<open>NaN\<close>, not to the empty string.
\<close>

theorem C6_market_segment_counterexample:
  "sosok raw_unknown_codes = Some (ascii ''2'')
   \<and> map_of sosok_table (ascii ''2'') = None
   \<and> market (map_fields raw_unknown_codes) \<noteq> Text []"
  by (simp add: raw_unknown_codes_def sosok_table_def ascii_def map_fields_def
      series_map_dict_def)

text \<open>
  Claim C8, as the code has it. The letter A is put in front of every raw code, whether
  or not the code starts with A already: the mapped code is A followed by the whole raw
  code. The listing page does the same with the code it reads from the link: when the
  link contains \<open>code=\<close>, the stock code is A followed by the text between the first
  \<open>code=\<close> and the next \<open>code=\<close> or \<open>&\<close> (the first piece, split at \<open>&\<close>, of the
  second piece of the link split at \<open>code=\<close>); when the link contains no \<open>code=\<close>, or
  there is no link, the stock code is empty. No path raises.
\<close>

theorem C8_prefix_always:
  "stock_code (map_fields r) = 65 # itemcode r
   \<and> stock_code_of_href None = Some []
   \<and> (\<not> contains (ascii ''code='') h \<longrightarrow> stock_code_of_href (Some h) = Some [])
   \<and> (contains (ascii ''code='') h \<longrightarrow>
        (\<exists>p seg rest c rest'.
           py_split h (ascii ''code='') = p # seg # rest
           \<and> py_split seg (ascii ''&'') = c # rest'
           \<and> stock_code_of_href (Some h) = Some (65 # c)))"
  using stock_code_of_href_code [of h] stock_code_of_href_no_code [of h]
  by (simp add: map_fields_def stock_code_of_href_def)

theorem C8_prefix_always_witness:
  "contains (ascii ''code='') href_plain
   \<and> (\<exists>p seg rest c rest'.
         py_split href_plain (ascii ''code='') = p # seg # rest
         \<and> py_split seg (ascii ''&'') = c # rest'
         \<and> stock_code_of_href (Some href_plain) = Some (65 # c))
   \<and> stock_code_of_href (Some href_plain) = Some (ascii ''A005930'')
   \<and> \<not> contains (ascii ''code='') href_no_code
   \<and> stock_code_of_href (Some href_no_code) = Some []"
proof -
  have v: "stock_code_of_href (Some href_plain) = Some (ascii ''A005930'')"
    by (simp add: stock_code_of_href_def href_plain_def ascii_def py_split_def split_str.simps)
  have h1: "contains (ascii ''code='') href_plain"
    by (simp add: href_plain_def ascii_def)
  have h2: "\<not> contains (ascii ''code='') href_no_code"
    by (simp add: href_no_code_def ascii_def)
  show ?thesis
    using h1 h2 v C8_prefix_always [of raw_unknown_codes href_plain]
      C8_prefix_always [of raw_unknown_codes href_no_code]
    by simp
qed

text \<open>
  Claim C8 as stated fails: a raw code that already starts with A gets a second A, in
  the field mapper and on the listing page.
\<close>

theorem C8_double_prefix_counterexample:
  "itemcode raw_prefixed_code = ascii ''A005930''
   \<and> stock_code (map_fields raw_prefixed_code) = ascii ''AA005930''
   \<and> stock_code_of_href (Some href_prefixed) = Some (ascii ''AA005930'')"
  by (simp add: raw_prefixed_code_def raw_unknown_codes_def map_fields_def ascii_def
      stock_code_of_href_def href_prefixed_def py_split_def split_str.simps)

section \<open>Properties of the enrichment stages\<close>

subsection \<open>The columns written for one row\<close>

lemma set_cells_facet_link:
  "set_cells (facet_writes name True xs) c =
     c(name @ str_digit 1 \<mapsto> Text (take 50 (title (slot xs 0))),
       name @ str_digit 1 @ date_suffix \<mapsto> Text (date (slot xs 0)),
       name @ str_digit 1 @ link_suffix \<mapsto> Text (link (slot xs 0)),
       name @ str_digit 2 \<mapsto> Text (take 50 (title (slot xs 1))),
       name @ str_digit 2 @ date_suffix \<mapsto> Text (date (slot xs 1)),
       name @ str_digit 2 @ link_suffix \<mapsto> Text (link (slot xs 1)),
       name @ str_digit 3 \<mapsto> Text (take 50 (title (slot xs 2))),
       name @ str_digit 3 @ date_suffix \<mapsto> Text (date (slot xs 2)),
       name @ str_digit 3 @ link_suffix \<mapsto> Text (link (slot xs 2)))"
  by (simp add: set_cells_def facet_writes_def slot_writes_def slot_def str_digit_def)

lemma set_cells_facet_nolink:
  "set_cells (facet_writes name False xs) c =
     c(name @ str_digit 1 \<mapsto> Text (take 50 (title (slot xs 0))),
       name @ str_digit 1 @ date_suffix \<mapsto> Text (date (slot xs 0)),
       name @ str_digit 2 \<mapsto> Text (take 50 (title (slot xs 1))),
       name @ str_digit 2 @ date_suffix \<mapsto> Text (date (slot xs 1)),
       name @ str_digit 3 \<mapsto> Text (take 50 (title (slot xs 2))),
       name @ str_digit 3 @ date_suffix \<mapsto> Text (date (slot xs 2)))"
  by (simp add: set_cells_def facet_writes_def slot_writes_def slot_def str_digit_def)


lemma each_row_length: "length (each_row f rows) = length rows"
  by (simp add: each_row_def)

lemma each_row_nth: "j < length rows \<Longrightarrow> each_row f rows ! j = f j (rows ! j)"
  by (simp add: each_row_def nth_enumerate_eq)

lemma collect_all_data_length:
  "length (collect_all_data lib g provider m d n) = length (collect_base g m)"
  by (simp add: collect_all_data_def collect_base_def Let_def each_row_length)

lemma collect_all_data_nth:
  assumes "j < length (collect_base g m)"
  shows "collect_all_data lib g provider m d n ! j =
           (if n then add_facets lib provider j else id)
             ((if d then add_detail provider j else id)
                \<lparr>base = collect_base g m ! j, cols = Map.empty\<rparr>)"
proof -
  from assms have "all_data (collect_pages g m 100) \<noteq> []"
    by (auto simp: collect_base_def)
  with assms show ?thesis
    by (simp add: collect_all_data_def collect_base_def Let_def each_row_nth each_row_length)
qed

lemma base_add_detail: "base (add_detail provider idx r) = base r"
  by (simp add: add_detail_def Let_def)

lemma base_add_facets: "base (add_facets lib provider idx r) = base r"
  by (simp add: add_facets_def Let_def)

lemma cols_add_detail:
  "cols (add_detail provider idx r) =
     (cols r)(sector_col \<mapsto>
                Text (fst (get_stock_detail
                             (detail_response (provider idx (clean_code (stock_code (base r))))))),
              description_col \<mapsto>
                Text (snd (get_stock_detail
                             (detail_response (provider idx (clean_code (stock_code (base r))))))))"
  by (simp add: add_detail_def Let_def)

lemma cols_add_facets:
  "cols (add_facets lib provider idx r) =
     (let answers = provider idx (clean_code (stock_code (base r)));
          news = get_recent_news lib (news_now answers) (news_response answers) 3 3;
          notices = get_recent_notices lib (notice_now answers) (notice_response answers) 3 3;
          ir_list = get_recent_ir lib (ir_now answers) (ir_response answers) 3 3
      in set_cells (facet_writes ir_name False ir_list)
           (set_cells (facet_writes notice_name True notices)
              (set_cells (facet_writes news_name True news) (cols r))))"
  by (simp add: add_facets_def Let_def)

lemmas column_names = news_name_def notice_name_def ir_name_def date_suffix_def link_suffix_def
  sector_col_def description_col_def str_digit_def ascii_def

lemma lt3: "i < (3::nat) \<Longrightarrow> i = 0 \<or> i = 1 \<or> i = 2"
  by arith

lemma facet_slots_row:
  assumes "i < 3"
  shows "let answers = provider idx (clean_code (stock_code (base r)));
          news = get_recent_news lib (news_now answers) (news_response answers) 3 3;
          notices = get_recent_notices lib (notice_now answers) (notice_response answers) 3 3;
          ir_list = get_recent_ir lib (ir_now answers) (ir_response answers) 3 3;
          c = cols (add_facets lib provider idx r)
      in c (news_name @ str_digit (i + 1)) = Some (Text (take 50 (title (slot news i))))
         \<and> c (news_name @ str_digit (i + 1) @ date_suffix) = Some (Text (date (slot news i)))
         \<and> c (news_name @ str_digit (i + 1) @ link_suffix) = Some (Text (link (slot news i)))
         \<and> c (notice_name @ str_digit (i + 1)) = Some (Text (take 50 (title (slot notices i))))
         \<and> c (notice_name @ str_digit (i + 1) @ date_suffix) = Some (Text (date (slot notices i)))
         \<and> c (notice_name @ str_digit (i + 1) @ link_suffix) = Some (Text (link (slot notices i)))
         \<and> c (ir_name @ str_digit (i + 1)) = Some (Text (take 50 (title (slot ir_list i))))
         \<and> c (ir_name @ str_digit (i + 1) @ date_suffix) = Some (Text (date (slot ir_list i)))
         \<and> c (ir_name @ str_digit (i + 1) @ link_suffix) = cols r (ir_name @ str_digit (i + 1) @ link_suffix)"
  using lt3 [OF assms]
  by (auto simp: cols_add_facets Let_def set_cells_facet_link set_cells_facet_nolink column_names)

lemma dom_add_facets:
  "dom (cols (add_facets lib provider idx r)) = dom (cols r) \<union> set facet_columns"
  by (auto simp: cols_add_facets Let_def set_cells_facet_link set_cells_facet_nolink
      facet_columns_def)

subsection \<open>The facet loops as filters\<close>




lemma notice_items_spec:
  assumes "length acc < k"
  shows "notice_items lib cutoff k items acc =
           take k (acc @ List.map_filter (recent_notice lib cutoff) items)"
  using assms
proof (induction items arbitrary: acc)
  case Nil
  then show ?case by simp
next
  case (Cons it items)
  show ?case
  proof (cases "recent_notice lib cutoff it")
    case None
    with Cons show ?thesis
      by (auto simp: recent_notice_def
          split: option.splits if_splits pydatetime.splits)
  next
    case (Some e)
    then obtain d l where d: "d_datetime it \<noteq> []"
        "fromisoformat lib (replace_char 90 (ascii ''+00:00'') (d_datetime it)) = Some (Naive d)"
        "cutoff \<le> d" "notice_link (bizdateSeq it) = Some l"
        "e = \<lparr>title = d_title it, date = strftime_ymd lib d, link = l\<rparr>"
      by (auto simp: recent_notice_def split: option.splits if_splits pydatetime.splits)
    show ?thesis
    proof (cases "k \<le> length (acc @ [e])")
      case True
      with Cons.prems(1) have "k - length acc = Suc 0" "length acc \<le> k" by simp_all
      then have "take k (acc @ e # List.map_filter (recent_notice lib cutoff) items) = acc @ [e]"
        by simp
      with True d Some show ?thesis by (simp add: Let_def)
    next
      case False
      then have "length (acc @ [e]) < k" by simp
      from Cons.IH [OF this]
      have "notice_items lib cutoff k items (acc @ [e]) =
              take k ((acc @ [e]) @ List.map_filter (recent_notice lib cutoff) items)"
        by simp
      with False d Some show ?thesis by (simp add: Let_def)
    qed
  qed
qed

lemma ir_items_spec:
  assumes "length acc < k"
  shows "ir_items lib cutoff k items acc =
           take k (acc @ List.map_filter (recent_ir lib cutoff) items)"
  using assms
proof (induction items arbitrary: acc)
  case Nil
  then show ?case by simp
next
  case (Cons it items)
  show ?case
  proof (cases "recent_ir lib cutoff it")
    case None
    with Cons show ?thesis
      by (auto simp: recent_ir_def split: option.splits if_splits)
  next
    case (Some e)
    then obtain d where d: "8 \<le> length (writeDate it)"
        "strptime_ymd lib (take 8 (writeDate it)) = Some d" "cutoff \<le> d"
        "e = \<lparr>title = i_title it, date = strftime_ymd lib d, link = []\<rparr>"
      by (auto simp: recent_ir_def split: option.splits if_splits)
    show ?thesis
    proof (cases "k \<le> length (acc @ [e])")
      case True
      with Cons.prems(1) have "k - length acc = Suc 0" "length acc \<le> k" by simp_all
      then have "take k (acc @ e # List.map_filter (recent_ir lib cutoff) items) = acc @ [e]"
        by simp
      with True d Some show ?thesis by (simp add: Let_def)
    next
      case False
      then have "length (acc @ [e]) < k" by simp
      from Cons.IH [OF this]
      have "ir_items lib cutoff k items (acc @ [e]) =
              take k ((acc @ [e]) @ List.map_filter (recent_ir lib cutoff) items)"
        by simp
      with False d Some show ?thesis by (simp add: Let_def)
    qed
  qed
qed


subsection \<open>The slots of a record\<close>

lemma slot_news_demo:
  "get_recent_news calendar april_1 (news_response answers_ok) 3 3 =
     [\<lparr>title = long_title, date = ascii ''2024-03-15'',
       link = ascii ''https://n.news.naver.com/mnews/article/001/0014567890''\<rparr>,
      \<lparr>title = ascii ''At the cutoff'', date = ascii ''2024-01-02'',
       link = ascii ''https://n.news.naver.com/mnews/article/015/0004930001''\<rparr>]"
  by code_simp

lemma two_stocks_base:
  "collect_base two_stocks 1000 = [map_fields raw_unknown_codes, map_fields raw_prefixed_code]"
  by (simp add: collect_base_def collect_pages_def collector_init_def collect_loop.simps
      two_stocks_def Let_def)

text \<open>
  Claim C2, as the code has it. Every record that leaves the facet stage has, for each
  of the slots 1, 2 and 3, a title, a date and a link column for the news and for the
  filings, and a title and a date column for the IR items. A slot for which an item
  was found holds the item (its title cut to 50 characters); a slot without an item
  holds empty strings. The stage writes no link column for the IR slots: the record
  has exactly the 24 facet columns, besides the two of the detail stage.
\<close>

theorem C2_three_slots:
  "j < length (collect_all_data lib g provider m d True) \<and> i < 3 \<longrightarrow>
     (let r = collect_all_data lib g provider m d True ! j;
          answers = provider j (clean_code (stock_code (base r)));
          news = get_recent_news lib (news_now answers) (news_response answers) 3 3;
          notices = get_recent_notices lib (notice_now answers) (notice_response answers) 3 3;
          ir_list = get_recent_ir lib (ir_now answers) (ir_response answers) 3 3;
          c = cols r
      in c (news_name @ str_digit (i + 1)) = Some (Text (take 50 (title (slot news i))))
         \<and> c (news_name @ str_digit (i + 1) @ date_suffix) = Some (Text (date (slot news i)))
         \<and> c (news_name @ str_digit (i + 1) @ link_suffix) = Some (Text (link (slot news i)))
         \<and> c (notice_name @ str_digit (i + 1)) = Some (Text (take 50 (title (slot notices i))))
         \<and> c (notice_name @ str_digit (i + 1) @ date_suffix) = Some (Text (date (slot notices i)))
         \<and> c (notice_name @ str_digit (i + 1) @ link_suffix) = Some (Text (link (slot notices i)))
         \<and> c (ir_name @ str_digit (i + 1)) = Some (Text (take 50 (title (slot ir_list i))))
         \<and> c (ir_name @ str_digit (i + 1) @ date_suffix) = Some (Text (date (slot ir_list i)))
         \<and> c (ir_name @ str_digit (i + 1) @ link_suffix) = None
         \<and> dom c = set (detail_columns d) \<union> set facet_columns)"
proof (intro impI, elim conjE)
  assume j: "j < length (collect_all_data lib g provider m d True)" and i: "i < 3"
  from j have j': "j < length (collect_base g m)" by (simp add: collect_all_data_length)
  define r0 where "r0 = (if d then add_detail provider j else id)
                          \<lparr>base = collect_base g m ! j, cols = Map.empty\<rparr>"
  have r: "collect_all_data lib g provider m d True ! j = add_facets lib provider j r0"
    using collect_all_data_nth [OF j', where lib = lib and provider = provider and d = d and n = True]
    by (simp add: r0_def)
  have b: "base (add_facets lib provider j r0) = base r0"
    by (rule base_add_facets)
  have none: "cols r0 (ir_name @ str_digit (i + 1) @ link_suffix) = None"
    using lt3 [OF i] by (auto simp: r0_def cols_add_detail column_names)
  have dom0: "dom (cols r0) = set (detail_columns d)"
    by (auto simp: r0_def cols_add_detail detail_columns_def)
  show "let r = collect_all_data lib g provider m d True ! j;
          answers = provider j (clean_code (stock_code (base r)));
          news = get_recent_news lib (news_now answers) (news_response answers) 3 3;
          notices = get_recent_notices lib (notice_now answers) (notice_response answers) 3 3;
          ir_list = get_recent_ir lib (ir_now answers) (ir_response answers) 3 3;
          c = cols r
      in c (news_name @ str_digit (i + 1)) = Some (Text (take 50 (title (slot news i))))
         \<and> c (news_name @ str_digit (i + 1) @ date_suffix) = Some (Text (date (slot news i)))
         \<and> c (news_name @ str_digit (i + 1) @ link_suffix) = Some (Text (link (slot news i)))
         \<and> c (notice_name @ str_digit (i + 1)) = Some (Text (take 50 (title (slot notices i))))
         \<and> c (notice_name @ str_digit (i + 1) @ date_suffix) = Some (Text (date (slot notices i)))
         \<and> c (notice_name @ str_digit (i + 1) @ link_suffix) = Some (Text (link (slot notices i)))
         \<and> c (ir_name @ str_digit (i + 1)) = Some (Text (take 50 (title (slot ir_list i))))
         \<and> c (ir_name @ str_digit (i + 1) @ date_suffix) = Some (Text (date (slot ir_list i)))
         \<and> c (ir_name @ str_digit (i + 1) @ link_suffix) = None
         \<and> dom c = set (detail_columns d) \<union> set facet_columns"
    using facet_slots_row [OF i, where lib = lib and provider = provider and idx = j and r = r0]
      none dom0 dom_add_facets [where lib = lib and provider = provider and idx = j and r = r0]
    unfolding r b Let_def by simp
qed


lemma demo_length:
  "length (collect_all_data calendar two_stocks provider_demo 1000 True True) = 2"
  by (simp add: collect_all_data_length two_stocks_base)

lemma demo_row:
  "j < 2 \<Longrightarrow>
   collect_all_data calendar two_stocks provider_demo 1000 True True ! j =
     add_facets calendar provider_demo j
       (add_detail provider_demo j
          \<lparr>base = [map_fields raw_unknown_codes, map_fields raw_prefixed_code] ! j,
           cols = Map.empty\<rparr>)"
  using collect_all_data_nth [where j = j and g = two_stocks and m = 1000 and lib = calendar
      and provider = provider_demo and d = True and n = True]
  by (simp add: two_stocks_base)

theorem C2_three_slots_witness:
  "(1::nat) < length (collect_all_data calendar two_stocks provider_demo 1000 True True)
   \<and> (0::nat) < 3
   \<and> (let c = cols (collect_all_data calendar two_stocks provider_demo 1000 True True ! 1)
      in c (news_name @ str_digit 1) = Some (Text [])
         \<and> c (news_name @ str_digit 1 @ date_suffix) = Some (Text [])
         \<and> c (news_name @ str_digit 1 @ link_suffix) = Some (Text [])
         \<and> c (notice_name @ str_digit 1) = Some (Text [])
         \<and> c (notice_name @ str_digit 1 @ date_suffix) = Some (Text [])
         \<and> c (notice_name @ str_digit 1 @ link_suffix) = Some (Text [])
         \<and> c (ir_name @ str_digit 1) = Some (Text [])
         \<and> c (ir_name @ str_digit 1 @ date_suffix) = Some (Text [])
         \<and> c (ir_name @ str_digit 1 @ link_suffix) = None
         \<and> dom c = set (detail_columns True) \<union> set facet_columns)"
proof -
  have h: "(1::nat) < length (collect_all_data calendar two_stocks provider_demo 1000 True True)
           \<and> (0::nat) < 3"
    by (simp add: demo_length)
  show ?thesis
    using h C2_three_slots [where j = 1 and i = 0 and lib = calendar and g = two_stocks
        and provider = provider_demo and m = 1000 and d = True]
    by (simp add: Let_def provider_demo_def answers_failed_def get_recent_news_def
        get_recent_notices_def get_recent_ir_def slot_def)
qed

text \<open>
  Claim C2 as stated fails: an IR slot is not a triple. In the second record of the run
  the first news slot has its (empty) link, the first IR slot has its title and its
  date, and there is no link column for it.
\<close>

theorem C2_ir_link_counterexample:
  "(let c = cols (collect_all_data calendar two_stocks provider_demo 1000 True True ! 1)
    in c (news_name @ str_digit 1 @ link_suffix) = Some (Text [])
       \<and> c (ir_name @ str_digit 1) = Some (Text [])
       \<and> c (ir_name @ str_digit 1 @ date_suffix) = Some (Text [])
       \<and> c (ir_name @ str_digit 1 @ link_suffix) = None)"
  by (simp add: demo_row cols_add_facets cols_add_detail base_add_detail Let_def
      set_cells_facet_link set_cells_facet_nolink provider_demo_def answers_failed_def
      get_recent_news_def get_recent_notices_def get_recent_ir_def slot_def column_names)


subsection \<open>Where the entries of a facet come from\<close>

lemma news_items_inv:
  assumes "news_items lib cutoff k items acc = Inl a \<or> news_items lib cutoff k items acc = Inr a"
    and "length acc < k"
  shows "length a \<le> k \<and> (\<forall>e\<in>set a. e \<in> set acc \<or> (\<exists>it\<in>set items. title e = n_title it))"
  using assms
proof (induction items arbitrary: acc)
  case Nil
  then show ?case by auto
next
  case (Cons it items)
  show ?case
  proof (cases "8 \<le> length (n_datetime it)")
    case False
    with Cons.prems have "news_items lib cutoff k items acc = Inl a
        \<or> news_items lib cutoff k items acc = Inr a" by simp
    from Cons.IH [OF this Cons.prems(2)] show ?thesis by auto
  next
    case long: True
    show ?thesis
    proof (cases "strptime_ymd lib (take 8 (n_datetime it))")
      case None
      with long Cons.prems show ?thesis by auto
    next
      case (Some d)
      show ?thesis
      proof (cases "cutoff \<le> d")
        case False
        with long Some Cons.prems have "news_items lib cutoff k items acc = Inl a
            \<or> news_items lib cutoff k items acc = Inr a" by simp
        from Cons.IH [OF this Cons.prems(2)] show ?thesis by auto
      next
        case True
        let ?acc = "acc @ [news_entry lib d it]"
        show ?thesis
        proof (cases "k \<le> length ?acc")
          case full: True
          with long Some True Cons.prems have "a = ?acc" by (auto simp: Let_def)
          with Cons.prems(2) show ?thesis by (auto simp: news_entry_def)
        next
          case False
          with long Some True Cons.prems have "news_items lib cutoff k items ?acc = Inl a
              \<or> news_items lib cutoff k items ?acc = Inr a" by (simp add: Let_def)
          from Cons.IH [OF this] False show ?thesis by (auto simp: news_entry_def)
        qed
      qed
    qed
  qed
qed

lemma news_clusters_inv:
  assumes "news_clusters lib cutoff k cs acc = Inl a \<or> news_clusters lib cutoff k cs acc = Inr a"
    and "length acc < k"
  shows "length a \<le> k
         \<and> (\<forall>e\<in>set a. e \<in> set acc \<or> (\<exists>it\<in>set (concat cs). title e = n_title it))"
  using assms
proof (induction cs arbitrary: acc)
  case Nil
  then show ?case by auto
next
  case (Cons c cs)
  show ?case
  proof (cases "news_items lib cutoff k c acc")
    case (Inl b)
    with Cons.prems have "a = b" by auto
    with Inl news_items_inv [of lib cutoff k c acc a] Cons.prems(2) show ?thesis by auto
  next
    case (Inr b)
    from Inr news_items_inv [of lib cutoff k c acc b] Cons.prems(2)
    have b: "length b \<le> k" "\<forall>e\<in>set b. e \<in> set acc \<or> (\<exists>it\<in>set c. title e = n_title it)"
      by auto
    show ?thesis
    proof (cases "k \<le> length b")
      case True
      with Inr Cons.prems have "a = b" by auto
      with b show ?thesis by auto
    next
      case False
      with Inr Cons.prems have "news_clusters lib cutoff k cs b = Inl a
          \<or> news_clusters lib cutoff k cs b = Inr a" by simp
      from Cons.IH [OF this] False b show ?thesis by fastforce
    qed
  qed
qed

lemma get_recent_news_inv:
  assumes "0 < k"
  shows "length (get_recent_news lib now response months k) \<le> k
         \<and> (\<forall>e\<in>set (get_recent_news lib now response months k).
               \<exists>clusters item. response = Body (Some clusters) \<and> item \<in> set (concat clusters)
                  \<and> title e = n_title item)"
proof (cases response)
  case Failed
  then show ?thesis by (simp add: get_recent_news_def)
next
  case (Body data)
  show ?thesis
  proof (cases data)
    case None
    with Body show ?thesis by (simp add: get_recent_news_def)
  next
    case (Some clusters)
    let ?a = "get_recent_news lib now response months k"
    have "news_clusters lib (cutoff_date now months) k clusters [] = Inl ?a
        \<or> news_clusters lib (cutoff_date now months) k clusters [] = Inr ?a"
      using Body Some by (auto simp: get_recent_news_def split: sum.splits)
    from news_clusters_inv [OF this] assms Body Some show ?thesis by simp blast
  qed
qed

lemma map_filter_set: "e \<in> set (List.map_filter f xs) \<Longrightarrow> \<exists>x\<in>set xs. f x = Some e"
  by (auto simp: List.map_filter_def)

lemma get_recent_notices_inv:
  assumes "0 < k"
  shows "length (get_recent_notices lib now response months k) \<le> k
         \<and> (\<forall>e\<in>set (get_recent_notices lib now response months k).
               \<exists>data item. response = Body (Some data) \<and> item \<in> set data
                  \<and> title e = d_title item)"
proof (cases response)
  case Failed
  then show ?thesis by (simp add: get_recent_notices_def)
next
  case (Body data)
  show ?thesis
  proof (cases data)
    case None
    with Body show ?thesis by (simp add: get_recent_notices_def)
  next
    case (Some items)
    have eq: "get_recent_notices lib now response months k =
            take k (List.map_filter (recent_notice lib (cutoff_date now months)) items)"
      using Body Some assms notice_items_spec [of "[]" k lib "cutoff_date now months" items]
      by (simp add: get_recent_notices_def)
    have "\<exists>item\<in>set items. title e = d_title item"
      if "e \<in> set (take k (List.map_filter (recent_notice lib (cutoff_date now months)) items))"
      for e
    proof -
      from that have "e \<in> set (List.map_filter (recent_notice lib (cutoff_date now months)) items)"
        by (rule in_set_takeD)
      then obtain x where "x \<in> set items" "recent_notice lib (cutoff_date now months) x = Some e"
        using map_filter_set by fast
      then show ?thesis
        by (auto simp: recent_notice_def split: if_splits option.splits pydatetime.splits)
    qed
    with eq Body Some show ?thesis by auto
  qed
qed

lemma get_recent_ir_inv:
  assumes "0 < k"
  shows "length (get_recent_ir lib now response months k) \<le> k
         \<and> (\<forall>e\<in>set (get_recent_ir lib now response months k).
               \<exists>data item. response = Body (Some data) \<and> item \<in> set data
                  \<and> title e = i_title item \<and> link e = [])"
proof (cases response)
  case Failed
  then show ?thesis by (simp add: get_recent_ir_def)
next
  case (Body data)
  show ?thesis
  proof (cases data)
    case None
    with Body show ?thesis by (simp add: get_recent_ir_def)
  next
    case (Some items)
    have eq: "get_recent_ir lib now response months k =
            take k (List.map_filter (recent_ir lib (cutoff_date now months)) items)"
      using Body Some assms ir_items_spec [of "[]" k lib "cutoff_date now months" items]
      by (simp add: get_recent_ir_def)
    have "\<exists>item\<in>set items. title e = i_title item \<and> link e = []"
      if "e \<in> set (take k (List.map_filter (recent_ir lib (cutoff_date now months)) items))"
      for e
    proof -
      from that have "e \<in> set (List.map_filter (recent_ir lib (cutoff_date now months)) items)"
        by (rule in_set_takeD)
      then obtain x where "x \<in> set items" "recent_ir lib (cutoff_date now months) x = Some e"
        using map_filter_set by fast
      then show ?thesis
        by (auto simp: recent_ir_def split: if_splits option.splits)
    qed
    with eq Body Some show ?thesis by auto
  qed
qed


subsection \<open>Titles are cut to 50 characters\<close>

lemma demo_news:
  "get_recent_news calendar (news_now answers_ok) (news_response answers_ok) 3 3 =
     [\<lparr>title = long_title, date = ascii ''2024-03-15'',
       link = ascii ''https://n.news.naver.com/mnews/article/001/0014567890''\<rparr>,
      \<lparr>title = ascii ''At the cutoff'', date = ascii ''2024-01-02'',
       link = ascii ''https://n.news.naver.com/mnews/article/015/0004930001''\<rparr>]"
  by code_simp

lemma demo_notices:
  "get_recent_notices calendar (notice_now answers_ok) (notice_response answers_ok) 3 3 =
     [\<lparr>title = ascii ''Annual report'', date = ascii ''2024-01-02'',
       link = ascii ''https://dart.fss.or.kr/dsaf001/main.do?rcpNo=20240102000123''\<rparr>]"
  by code_simp

lemma demo_ir:
  "get_recent_ir calendar (ir_now answers_ok) (ir_response answers_ok) 3 3 =
     [\<lparr>title = ascii ''Investor day'', date = ascii ''2024-01-02'', link = []\<rparr>]"
  by code_simp

lemma long_title_length: "length long_title = 70"
  by (simp add: long_title_def ascii_def)

text \<open>
  Claim C10, as the code has it. For every record and every filled slot, the title
  written is the first 50 characters of the title of the item found, the titles of the
  items are those the provider supplied, and the date and, for news and filings, the
  link are written as the facet fetch returned them. An IR item has an empty link, and
  no link column is written for its slot.
\<close>

theorem C10_title_cut:
  "j < length (collect_all_data lib g provider m d True) \<longrightarrow>
     (let r = collect_all_data lib g provider m d True ! j;
          answers = provider j (clean_code (stock_code (base r)));
          news = get_recent_news lib (news_now answers) (news_response answers) 3 3;
          notices = get_recent_notices lib (notice_now answers) (notice_response answers) 3 3;
          ir_list = get_recent_ir lib (ir_now answers) (ir_response answers) 3 3;
          c = cols r
      in (\<forall>i<length news.
            c (news_name @ str_digit (i + 1)) = Some (Text (take 50 (title (news ! i))))
            \<and> c (news_name @ str_digit (i + 1) @ date_suffix) = Some (Text (date (news ! i)))
            \<and> c (news_name @ str_digit (i + 1) @ link_suffix) = Some (Text (link (news ! i))))
         \<and> (\<forall>i<length notices.
            c (notice_name @ str_digit (i + 1)) = Some (Text (take 50 (title (notices ! i))))
            \<and> c (notice_name @ str_digit (i + 1) @ date_suffix) = Some (Text (date (notices ! i)))
            \<and> c (notice_name @ str_digit (i + 1) @ link_suffix) = Some (Text (link (notices ! i))))
         \<and> (\<forall>i<length ir_list.
            c (ir_name @ str_digit (i + 1)) = Some (Text (take 50 (title (ir_list ! i))))
            \<and> c (ir_name @ str_digit (i + 1) @ date_suffix) = Some (Text (date (ir_list ! i)))
            \<and> link (ir_list ! i) = []
            \<and> c (ir_name @ str_digit (i + 1) @ link_suffix) = None)
         \<and> (\<forall>e\<in>set news. \<exists>clusters item. news_response answers = Body (Some clusters)
                \<and> item \<in> set (concat clusters) \<and> title e = n_title item)
         \<and> (\<forall>e\<in>set notices. \<exists>data item. notice_response answers = Body (Some data)
                \<and> item \<in> set data \<and> title e = d_title item)
         \<and> (\<forall>e\<in>set ir_list. \<exists>data item. ir_response answers = Body (Some data)
                \<and> item \<in> set data \<and> title e = i_title item))"
proof
  assume j: "j < length (collect_all_data lib g provider m d True)"
  from j have j': "j < length (collect_base g m)" by (simp add: collect_all_data_length)
  define r0 where "r0 = (if d then add_detail provider j else id)
                          \<lparr>base = collect_base g m ! j, cols = Map.empty\<rparr>"
  have r: "collect_all_data lib g provider m d True ! j = add_facets lib provider j r0"
    using collect_all_data_nth [OF j', where lib = lib and provider = provider and d = d and n = True]
    by (simp add: r0_def)
  have b: "base (add_facets lib provider j r0) = base r0"
    by (rule base_add_facets)
  define answers where "answers = provider j (clean_code (stock_code (base r0)))"
  define news where "news = get_recent_news lib (news_now answers) (news_response answers) 3 3"
  define notices where
    "notices = get_recent_notices lib (notice_now answers) (notice_response answers) 3 3"
  define ir_list where "ir_list = get_recent_ir lib (ir_now answers) (ir_response answers) 3 3"
  define c where "c = cols (add_facets lib provider j r0)"
  have n_inv: "length news \<le> 3" "\<forall>e\<in>set news. \<exists>clusters item.
      news_response answers = Body (Some clusters) \<and> item \<in> set (concat clusters)
      \<and> title e = n_title item"
    using get_recent_news_inv [of 3 lib "news_now answers" "news_response answers" 3]
    by (simp_all add: news_def)
  have d_inv: "length notices \<le> 3" "\<forall>e\<in>set notices. \<exists>data item.
      notice_response answers = Body (Some data) \<and> item \<in> set data \<and> title e = d_title item"
    using get_recent_notices_inv [of 3 lib "notice_now answers" "notice_response answers" 3]
    by (simp_all add: notices_def)
  have i_inv: "length ir_list \<le> 3" "\<forall>e\<in>set ir_list. \<exists>data item.
      ir_response answers = Body (Some data) \<and> item \<in> set data \<and> title e = i_title item
      \<and> link e = []"
    using get_recent_ir_inv [of 3 lib "ir_now answers" "ir_response answers" 3]
    by (simp_all add: ir_list_def)
  have none: "cols r0 (ir_name @ str_digit (i + 1) @ link_suffix) = None" if "i < 3" for i
    using lt3 [OF that] by (auto simp: r0_def cols_add_detail column_names)
  have row: "c (news_name @ str_digit (i + 1)) = Some (Text (take 50 (title (slot news i))))
         \<and> c (news_name @ str_digit (i + 1) @ date_suffix) = Some (Text (date (slot news i)))
         \<and> c (news_name @ str_digit (i + 1) @ link_suffix) = Some (Text (link (slot news i)))
         \<and> c (notice_name @ str_digit (i + 1)) = Some (Text (take 50 (title (slot notices i))))
         \<and> c (notice_name @ str_digit (i + 1) @ date_suffix) = Some (Text (date (slot notices i)))
         \<and> c (notice_name @ str_digit (i + 1) @ link_suffix) = Some (Text (link (slot notices i)))
         \<and> c (ir_name @ str_digit (i + 1)) = Some (Text (take 50 (title (slot ir_list i))))
         \<and> c (ir_name @ str_digit (i + 1) @ date_suffix) = Some (Text (date (slot ir_list i)))
         \<and> c (ir_name @ str_digit (i + 1) @ link_suffix) = None"
    if "i < 3" for i
    using facet_slots_row [OF that, where lib = lib and provider = provider and idx = j and r = r0]
      none [OF that]
    by (simp add: Let_def c_def news_def notices_def ir_list_def answers_def)
  have p1: "\<forall>i<length news.
            c (news_name @ str_digit (i + 1)) = Some (Text (take 50 (title (news ! i))))
            \<and> c (news_name @ str_digit (i + 1) @ date_suffix) = Some (Text (date (news ! i)))
            \<and> c (news_name @ str_digit (i + 1) @ link_suffix) = Some (Text (link (news ! i)))"
    using row n_inv(1) by (auto simp: slot_def)
  have p2: "\<forall>i<length notices.
            c (notice_name @ str_digit (i + 1)) = Some (Text (take 50 (title (notices ! i))))
            \<and> c (notice_name @ str_digit (i + 1) @ date_suffix) = Some (Text (date (notices ! i)))
            \<and> c (notice_name @ str_digit (i + 1) @ link_suffix) = Some (Text (link (notices ! i)))"
    using row d_inv(1) by (auto simp: slot_def)
  have p3: "\<forall>i<length ir_list.
            c (ir_name @ str_digit (i + 1)) = Some (Text (take 50 (title (ir_list ! i))))
            \<and> c (ir_name @ str_digit (i + 1) @ date_suffix) = Some (Text (date (ir_list ! i)))
            \<and> link (ir_list ! i) = []
            \<and> c (ir_name @ str_digit (i + 1) @ link_suffix) = None"
    using row i_inv by (auto simp: slot_def)
  have p6: "\<forall>e\<in>set ir_list. \<exists>data item. ir_response answers = Body (Some data)
                \<and> item \<in> set data \<and> title e = i_title item"
    using i_inv(2) by blast
  show "let r = collect_all_data lib g provider m d True ! j;
          answers = provider j (clean_code (stock_code (base r)));
          news = get_recent_news lib (news_now answers) (news_response answers) 3 3;
          notices = get_recent_notices lib (notice_now answers) (notice_response answers) 3 3;
          ir_list = get_recent_ir lib (ir_now answers) (ir_response answers) 3 3;
          c = cols r
      in (\<forall>i<length news.
            c (news_name @ str_digit (i + 1)) = Some (Text (take 50 (title (news ! i))))
            \<and> c (news_name @ str_digit (i + 1) @ date_suffix) = Some (Text (date (news ! i)))
            \<and> c (news_name @ str_digit (i + 1) @ link_suffix) = Some (Text (link (news ! i))))
         \<and> (\<forall>i<length notices.
            c (notice_name @ str_digit (i + 1)) = Some (Text (take 50 (title (notices ! i))))
            \<and> c (notice_name @ str_digit (i + 1) @ date_suffix) = Some (Text (date (notices ! i)))
            \<and> c (notice_name @ str_digit (i + 1) @ link_suffix) = Some (Text (link (notices ! i))))
         \<and> (\<forall>i<length ir_list.
            c (ir_name @ str_digit (i + 1)) = Some (Text (take 50 (title (ir_list ! i))))
            \<and> c (ir_name @ str_digit (i + 1) @ date_suffix) = Some (Text (date (ir_list ! i)))
            \<and> link (ir_list ! i) = []
            \<and> c (ir_name @ str_digit (i + 1) @ link_suffix) = None)
         \<and> (\<forall>e\<in>set news. \<exists>clusters item. news_response answers = Body (Some clusters)
                \<and> item \<in> set (concat clusters) \<and> title e = n_title item)
         \<and> (\<forall>e\<in>set notices. \<exists>data item. notice_response answers = Body (Some data)
                \<and> item \<in> set data \<and> title e = d_title item)
         \<and> (\<forall>e\<in>set ir_list. \<exists>data item. ir_response answers = Body (Some data)
                \<and> item \<in> set data \<and> title e = i_title item)"
    unfolding r b Let_def
    using p1 p2 p3 n_inv(2) d_inv(2) p6
    unfolding c_def news_def notices_def ir_list_def answers_def
    by blast
qed


theorem C10_title_cut_witness:
  "(0::nat) < length (collect_all_data calendar two_stocks provider_demo 1000 True True)
   \<and> length long_title = 70
   \<and> (let c = cols (collect_all_data calendar two_stocks provider_demo 1000 True True ! 0)
      in c (news_name @ str_digit 1) = Some (Text (take 50 long_title))
         \<and> c (news_name @ str_digit 1 @ date_suffix) = Some (Text (ascii ''2024-03-15''))
         \<and> c (news_name @ str_digit 1 @ link_suffix) =
             Some (Text (ascii ''https://n.news.naver.com/mnews/article/001/0014567890''))
         \<and> c (notice_name @ str_digit 1) = Some (Text (ascii ''Annual report''))
         \<and> c (notice_name @ str_digit 1 @ link_suffix) =
             Some (Text (ascii ''https://dart.fss.or.kr/dsaf001/main.do?rcpNo=20240102000123''))
         \<and> c (ir_name @ str_digit 1) = Some (Text (ascii ''Investor day''))
         \<and> c (ir_name @ str_digit 1 @ date_suffix) = Some (Text (ascii ''2024-01-02'')))"
proof -
  have h: "(0::nat) < length (collect_all_data calendar two_stocks provider_demo 1000 True True)"
    by (simp add: demo_length)
  have short: "take 50 (ascii ''Annual report'') = ascii ''Annual report''"
    "take 50 (ascii ''Investor day'') = ascii ''Investor day''"
    by (simp_all add: ascii_def)
  show ?thesis
    using h short
      C10_title_cut [where j = 0 and lib = calendar and g = two_stocks
        and provider = provider_demo and m = 1000 and d = True]
    by (simp add: Let_def provider_demo_def demo_news demo_notices demo_ir long_title_length
        All_less_Suc)
qed

text \<open>
  Claim C10 as stated fails for the link of an IR slot: in the first record of the run
  the first IR slot is filled, its title and date are written, and no link is written
  for it.
\<close>

theorem C10_ir_link_counterexample:
  "(let c = cols (collect_all_data calendar two_stocks provider_demo 1000 True True ! 0);
        ir_list = get_recent_ir calendar (ir_now answers_ok) (ir_response answers_ok) 3 3
    in 0 < length ir_list
       \<and> c (ir_name @ str_digit 1) = Some (Text (title (ir_list ! 0)))
       \<and> c (ir_name @ str_digit 1 @ date_suffix) = Some (Text (date (ir_list ! 0)))
       \<and> c (ir_name @ str_digit 1 @ link_suffix) = None)"
  by (simp add: demo_row cols_add_facets cols_add_detail base_add_detail Let_def
      set_cells_facet_link set_cells_facet_nolink provider_demo_def demo_ir
      slot_def column_names)


subsection \<open>The cutoff date\<close>











end
